theory Spec2Isabelle
  imports Complex_Main "HOL-Library.Log_Nat"
begin

section \<open>The frame queue of \<open>showscreen.py\<close>\<close>

text \<open>
  \<open>ScreenCaptureThread.__init__\<close> creates \<open>Queue(maxsize=max_queue_size)\<close> from Python's
  standard \<open>queue\<close> module. The model keeps the two fields the operations read: the bound
  \<open>maxsize\<close> (a Python int, hence \<open>int\<close>) and the FIFO content, oldest entry first.
  Frames are opaque, so the frame type is a parameter.
\<close>

record 'f queue =
  maxsize :: int
  items :: "'f list"

definition Queue :: "int \<Rightarrow> 'f queue" where
  "Queue n = \<lparr>maxsize = n, items = []\<rparr>"

definition qsize :: "'f queue \<Rightarrow> int" where
  "qsize q = int (length (items q))"

text \<open>\<open>Queue.full\<close> is \<open>0 < self.maxsize <= self._qsize()\<close>: a bound of zero or less never fills.\<close>

definition full :: "'f queue \<Rightarrow> bool" where
  "full q \<longleftrightarrow> 0 < maxsize q \<and> maxsize q \<le> qsize q"

datatype queue_error = Empty

text \<open>\<open>Queue.get_nowait\<close>: raises \<open>Empty\<close> on an empty queue, otherwise removes the oldest entry.\<close>

definition get_nowait :: "'f queue \<Rightarrow> queue_error + ('f \<times> 'f queue)" where
  "get_nowait q =
     (case items q of
        [] \<Rightarrow> Inl Empty
      | x # xs \<Rightarrow> Inr (x, q\<lparr>items := xs\<rparr>))"

text \<open>
  \<open>Queue.put(item)\<close> with the default \<open>block=True, timeout=None\<close>: while
  \<open>maxsize > 0\<close> and \<open>qsize >= maxsize\<close> the caller waits for a consumer. With no
  consumer running the wait never ends; that outcome is \<open>None\<close>.
\<close>

definition put :: "'f \<Rightarrow> 'f queue \<Rightarrow> 'f queue option" where
  "put x q =
     (if 0 < maxsize q \<and> maxsize q \<le> qsize q then None
      else Some (q\<lparr>items := items q @ [x]\<rparr>))"

text \<open>
  The push of \<open>ScreenCaptureThread.run\<close> (the block under \<open>if frame is not None\<close>):
  \<^verbatim>\<open>
    if self.frame_queue.full():
        try:
            self.frame_queue.get_nowait()
        except Empty:
            pass
    self.frame_queue.put(frame)
  \<close>
\<close>

definition push_frame :: "'f \<Rightarrow> 'f queue \<Rightarrow> 'f queue option" where
  "push_frame frame q =
     (let q1 = (if full q
                then (case get_nowait q of Inl Empty \<Rightarrow> q | Inr (_, q') \<Rightarrow> q')
                else q)
      in put frame q1)"

text \<open>A run of pushes with no pop in between; it stops where a push would wait.\<close>

fun pushes :: "'f list \<Rightarrow> 'f queue \<Rightarrow> 'f queue option" where
  "pushes [] q = Some q"
| "pushes (f # fs) q =
     (case push_frame f q of None \<Rightarrow> None | Some q' \<Rightarrow> pushes fs q')"

text \<open>
  \<open>ScreenCaptureThread.get_latest_frame\<close>:
  \<^verbatim>\<open>
    try:
        return self.frame_queue.get_nowait()
    except Empty:
        return None
  \<close>
  The result is the returned frame (\<open>None\<close> for Python's \<open>None\<close>) and the queue left behind.
\<close>

definition get_latest_frame :: "'f queue \<Rightarrow> 'f option \<times> 'f queue" where
  "get_latest_frame q =
     (case get_nowait q of
        Inl Empty \<Rightarrow> (None, q)
      | Inr (x, q') \<Rightarrow> (Some x, q'))"


text \<open>A queue that holds no more than its bound; an unbounded one always does.\<close>

definition queue_ok :: "'f queue \<Rightarrow> bool" where
  "queue_ok q \<longleftrightarrow> maxsize q \<le> 0 \<or> qsize q \<le> maxsize q"


section \<open>Python values shared by the handlers\<close>

text \<open>
  A Python \<open>str\<close> is a \<open>string\<close> holding its UTF-8 bytes. Exceptions are values: each
  constructor is a subclass of Python's \<open>Exception\<close> (the only ones \<open>except Exception\<close>
  catches) and carries the text that \<open>str(e)\<close> returns; for the exceptions that built-in
  operations raise, the text is shortened (Python quotes type names and appends the
  \<open>repr\<close> of an offending string).
\<close>

datatype py_exception =
    ValueError string
  | TypeError string
  | IndexError string
  | ZeroDivisionError string
  | AttributeError string
  | FileNotFoundError string
  | TimeoutExpired string
  | OverflowError string
  | OtherException string string

fun str_exc :: "py_exception \<Rightarrow> string" where
  "str_exc (ValueError m) = m"
| "str_exc (TypeError m) = m"
| "str_exc (IndexError m) = m"
| "str_exc (ZeroDivisionError m) = m"
| "str_exc (AttributeError m) = m"
| "str_exc (FileNotFoundError m) = m"
| "str_exc (TimeoutExpired m) = m"
| "str_exc (OverflowError m) = m"
| "str_exc (OtherException cls m) = m"

text \<open>
  A Python float is an IEEE 754 double: a finite value, an infinity or a NaN. (The sign of a
  zero is not kept; no operation below reads it.) The clock readings of the display loop
  alone are kept as plain reals.
\<close>

datatype pyfloat = Fin real | PosInf | NegInf | NaN

definition pow2 :: "int \<Rightarrow> real" where
  "pow2 e = (if 0 \<le> e then 2 ^ nat e else 1 / 2 ^ nat (- e))"

text \<open>Rounding to the nearest integer, a tie going to the even one.\<close>

definition round_even :: "real \<Rightarrow> int" where
  "round_even r =
     (let f = \<lfloor>r\<rfloor>; d = r - real_of_int f
      in if d < 1 / 2 then f else if 1 / 2 < d then f + 1 else if even f then f else f + 1)"

text \<open>The binary exponent of a positive real: the \<open>e\<close> with \<open>2^e \<le> r < 2^(e+1)\<close>.\<close>

definition ilog2 :: "real \<Rightarrow> int" where
  "ilog2 r = (if 1 \<le> r then bitlen \<lfloor>r\<rfloor> - 1 else - bitlen (\<lceil>1 / r\<rceil> - 1))"

text \<open>
  The double nearest to a real (round to nearest, ties to even): 53 significant bits,
  exponents from -1022 (below that the spacing stays \<open>2^-1074\<close>) to 1023, and an infinity
  when the rounded value reaches \<open>2^1024\<close>.
\<close>

definition to_double :: "real \<Rightarrow> pyfloat" where
  "to_double r =
     (if r = 0 then Fin 0
      else
        let a = \<bar>r\<bar>;
            e = max (ilog2 a) (- 1022);
            u = pow2 (e - 52);
            m = round_even (a / u)
        in if 1024 \<le> e \<or> (e = 1023 \<and> m = 9007199254740992)
           then (if r < 0 then NegInf else PosInf)
           else Fin (if r < 0 then - (real_of_int m * u) else real_of_int m * u))"

text \<open>The product of two floats.\<close>

fun fmul :: "pyfloat \<Rightarrow> pyfloat \<Rightarrow> pyfloat" where
  "fmul NaN y = NaN"
| "fmul x NaN = NaN"
| "fmul (Fin a) (Fin b) = to_double (a * b)"
| "fmul (Fin a) PosInf = (if a = 0 then NaN else if 0 < a then PosInf else NegInf)"
| "fmul (Fin a) NegInf = (if a = 0 then NaN else if 0 < a then NegInf else PosInf)"
| "fmul PosInf (Fin b) = (if b = 0 then NaN else if 0 < b then PosInf else NegInf)"
| "fmul NegInf (Fin b) = (if b = 0 then NaN else if 0 < b then NegInf else PosInf)"
| "fmul PosInf PosInf = PosInf"
| "fmul PosInf NegInf = NegInf"
| "fmul NegInf PosInf = NegInf"
| "fmul NegInf NegInf = PosInf"

text \<open>
  An int operand of a float operation is converted first (\<open>float_of_int\<close>); the true
  division \<open>a / b\<close> of two ints gives the double nearest to the quotient (\<open>int_truediv\<close>);
  \<open>int(f)\<close> truncates toward zero (\<open>int_of_float\<close>). Each raises where Python does.
\<close>

definition float_of_int :: "int \<Rightarrow> py_exception + pyfloat" where
  "float_of_int n =
     (case to_double (real_of_int n) of
        Fin v \<Rightarrow> Inr (Fin v)
      | _ \<Rightarrow> Inl (OverflowError ''int too large to convert to float''))"

definition int_truediv :: "int \<Rightarrow> int \<Rightarrow> py_exception + pyfloat" where
  "int_truediv a b =
     (if b = 0 then Inl (ZeroDivisionError ''division by zero'')
      else (case to_double (real_of_int a / real_of_int b) of
              Fin v \<Rightarrow> Inr (Fin v)
            | _ \<Rightarrow> Inl (OverflowError ''integer division result too large for a float'')))"

definition py_trunc :: "real \<Rightarrow> int" where
  "py_trunc r = (if 0 \<le> r then \<lfloor>r\<rfloor> else \<lceil>r\<rceil>)"

fun int_of_float :: "pyfloat \<Rightarrow> py_exception + int" where
  "int_of_float (Fin r) = Inr (py_trunc r)"
| "int_of_float NaN = Inl (ValueError ''cannot convert float NaN to integer'')"
| "int_of_float x = Inl (OverflowError ''cannot convert float infinity to integer'')"

text \<open>
  \<open>str.strip()\<close> and \<open>int(s)\<close> on a string, for ASCII input: whitespace is stripped, then an
  optional sign and decimal digits follow, where single underscores may separate digits.
  A literal of more than \<open>int_max_str_digits\<close> digits is refused with a \<open>ValueError\<close> as
  well: the limit of \<open>sys.get_int_max_str_digits()\<close>, here at its default.
  (Python also accepts non-ASCII whitespace and digits; those are not recognised here.)
\<close>

definition int_max_str_digits :: nat where
  "int_max_str_digits = 4300"

definition is_space :: "char \<Rightarrow> bool" where
  "is_space c \<longleftrightarrow> (of_char c :: nat) \<in> {9, 10, 11, 12, 13, 28, 29, 30, 31, 32}"

definition strip :: "string \<Rightarrow> string" where
  "strip s = rev (dropWhile is_space (rev (dropWhile is_space s)))"

definition is_digit :: "char \<Rightarrow> bool" where
  "is_digit c \<longleftrightarrow> 48 \<le> (of_char c :: nat) \<and> (of_char c :: nat) \<le> 57"

fun digits_ok :: "bool \<Rightarrow> string \<Rightarrow> bool" where
  "digits_ok after_digit [] = after_digit"
| "digits_ok after_digit (c # cs) =
     (if is_digit c then digits_ok True cs
      else if c = CHR ''_'' \<and> after_digit then cs \<noteq> [] \<and> is_digit (hd cs) \<and> digits_ok False cs
      else False)"

definition digits_value :: "string \<Rightarrow> int" where
  "digits_value ds = foldl (\<lambda>acc c. 10 * acc + (int (of_char c) - 48)) 0 (filter is_digit ds)"

definition int_of_str :: "string \<Rightarrow> py_exception + int" where
  "int_of_str s =
     (let t = strip s;
          neg = (t \<noteq> [] \<and> hd t = CHR ''-'');
          ds = (if t \<noteq> [] \<and> (hd t = CHR ''-'' \<or> hd t = CHR ''+'') then tl t else t)
      in if digits_ok False ds
         then (if int_max_str_digits < length (filter is_digit ds)
               then Inl (ValueError ''Exceeds the limit for integer string conversion'')
               else Inr (if neg then - digits_value ds else digits_value ds))
         else Inl (ValueError (''invalid literal for int() with base 10: '' @ s)))"

text \<open>\<open>sub in s\<close> and \<open>s.split(sep)\<close> for a non-empty separator.\<close>

fun contains :: "string \<Rightarrow> string \<Rightarrow> bool" where
  "contains sub [] = (sub = [])"
| "contains sub (c # cs) = (take (length sub) (c # cs) = sub \<or> contains sub cs)"

fun split :: "string \<Rightarrow> string \<Rightarrow> string list" where
  "split sep [] = [[]]"
| "split sep (c # cs) =
     (if sep \<noteq> [] \<and> take (length sep) (c # cs) = sep
      then [] # split sep (drop (length sep) (c # cs))
      else (case split sep cs of
              [] \<Rightarrow> [[c]]
            | p # ps \<Rightarrow> (c # p) # ps))"

text \<open>
  The values a parsed JSON body can hold. A JSON object is a Python dict, listed as its
  entries with distinct keys.
\<close>

datatype json =
    JNull
  | JBool bool
  | JInt int
  | JFloat pyfloat
  | JStr string
  | JArr "json list"
  | JObj "(string \<times> json) list"


section \<open>The capture thread of \<open>showscreen.py\<close>\<close>

text \<open>
  What one call of \<open>get_screenshot_with_size\<close> meets outside the program: the two
  \<open>subprocess.run\<close> calls of the bridge (each raises, for instance \<open>FileNotFoundError\<close> or
  \<open>TimeoutExpired\<close>, or returns its output; \<open>check\<close> is not set, so a non-zero exit code
  does not raise), \<open>cv2.imdecode\<close> (Python's \<open>None\<close> for undecodable bytes) and
  \<open>cv2.resize\<close>. \<open>np.frombuffer\<close> only wraps the bytes.
\<close>

record 'f adb_env =
  wm_size :: "py_exception + string"
  screencap :: "py_exception + (int \<times> string)"
  imdecode :: "string \<Rightarrow> py_exception + 'f option"
  resize :: "'f \<Rightarrow> int \<times> int \<Rightarrow> py_exception + 'f"

text \<open>\<open>w, h = map(int, size_str.split("x"))\<close>: the fields are converted as the unpacking
  reaches them, and a third field is converted before the unpacking fails.\<close>

definition parse_size :: "string \<Rightarrow> py_exception + (int \<times> int)" where
  "parse_size size_str =
     (case split ''x'' size_str of
        [] \<Rightarrow> Inl (ValueError ''not enough values to unpack (expected 2, got 0)'')
      | [a] \<Rightarrow>
          (case int_of_str a of
             Inl e \<Rightarrow> Inl e
           | Inr _ \<Rightarrow> Inl (ValueError ''not enough values to unpack (expected 2, got 1)''))
      | a # b # rest \<Rightarrow>
          (case int_of_str a of
             Inl e \<Rightarrow> Inl e
           | Inr w \<Rightarrow>
               (case int_of_str b of
                  Inl e \<Rightarrow> Inl e
                | Inr h \<Rightarrow>
                    (case rest of
                       [] \<Rightarrow> Inr (w, h)
                     | c # _ \<Rightarrow>
                         (case int_of_str c of
                            Inl e \<Rightarrow> Inl e
                          | Inr _ \<Rightarrow>
                              Inl (ValueError ''too many values to unpack (expected 2)''))))))"

text \<open>
  The body of the \<open>try\<close> in \<open>get_screenshot_with_size\<close>, exceptions as \<open>Inl\<close>.
  \<open>scale = width / w\<close> divides two ints and \<open>height = int(h * scale)\<close> multiplies an int
  by a float.
\<close>

definition screenshot_body :: "'f adb_env \<Rightarrow> int \<Rightarrow> py_exception + 'f option" where
  "screenshot_body env width =
     (case wm_size env of
        Inl e \<Rightarrow> Inl e
      | Inr stdout \<Rightarrow>
          if contains ''Physical size'' stdout then
            (case split '': '' stdout of
               p0 # p1 # _ \<Rightarrow>
                 (case parse_size (strip p1) of
                    Inl e \<Rightarrow> Inl e
                  | Inr (w, h) \<Rightarrow>
                 (case int_truediv width w of
                    Inl e \<Rightarrow> Inl e
                  | Inr scale \<Rightarrow>
                 (case float_of_int h of
                    Inl e \<Rightarrow> Inl e
                  | Inr hf \<Rightarrow>
                 (case int_of_float (fmul hf scale) of
                    Inl e \<Rightarrow> Inl e
                  | Inr height \<Rightarrow>
                 (case screencap env of
                    Inl e \<Rightarrow> Inl e
                  | Inr (returncode, out) \<Rightarrow>
                      if returncode = 0 then
                        (case imdecode env out of
                           Inl e \<Rightarrow> Inl e
                         | Inr None \<Rightarrow> Inr None
                         | Inr (Some img) \<Rightarrow>
                             (case resize env img (width, height) of
                                Inl e \<Rightarrow> Inl e
                              | Inr img' \<Rightarrow> Inr (Some img')))
                      else Inr None)))))
             | _ \<Rightarrow> Inl (IndexError ''list index out of range''))
          else Inr None)"

text \<open>\<open>get_screenshot_with_size\<close>: \<open>except Exception as e: return None\<close> around the body.\<close>

definition get_screenshot_with_size :: "'f adb_env \<Rightarrow> int \<Rightarrow> 'f option" where
  "get_screenshot_with_size env width =
     (case screenshot_body env width of
        Inl e \<Rightarrow> None
      | Inr r \<Rightarrow> r)"

text \<open>The fields that \<open>ScreenCaptureThread.__init__\<close> sets.\<close>

record 'f capture_thread =
  target_width :: int
  frame_queue :: "'f queue"
  running :: bool
  daemon :: bool

definition ScreenCaptureThread :: "int \<Rightarrow> int \<Rightarrow> 'f capture_thread" where
  "ScreenCaptureThread tw max_queue_size =
     \<lparr>target_width = tw, frame_queue = Queue max_queue_size, running = True, daemon = True\<rparr>"

definition stop :: "'f capture_thread \<Rightarrow> 'f capture_thread" where
  "stop th = th\<lparr>running := False\<rparr>"

text \<open>What the loops do to the outside: sleeps (in seconds) and window calls.\<close>

datatype 'f effect =
    Sleep real
  | Imshow 'f
  | SetWindowTitle real int

text \<open>
  One pass through the body of \<open>while self.running\<close> in \<open>run\<close>. The \<open>try\<close> block is
  \<open>run_body\<close>: its result is \<open>None\<close> when \<open>put\<close> waits for ever, otherwise the exception
  raised or the new thread state with the effects. The handler
  \<open>except Exception: time.sleep(0.1)\<close> is the \<open>Inl\<close> branch of \<open>run_iteration\<close>.
\<close>

definition run_body ::
  "'f adb_env \<Rightarrow> 'f capture_thread \<Rightarrow> (py_exception + 'f capture_thread \<times> 'f effect list) option" where
  "run_body env th =
     (case get_screenshot_with_size env (target_width th) of
        None \<Rightarrow> Some (Inr (th, [Sleep (1 / 100)]))
      | Some frame \<Rightarrow>
          (case push_frame frame (frame_queue th) of
             None \<Rightarrow> None
           | Some q' \<Rightarrow> Some (Inr (th\<lparr>frame_queue := q'\<rparr>, [Sleep (1 / 100)]))))"

definition run_iteration ::
  "'f adb_env \<Rightarrow> 'f capture_thread \<Rightarrow> ('f capture_thread \<times> 'f effect list) option" where
  "run_iteration env th =
     (case run_body env th of
        None \<Rightarrow> None
      | Some (Inr r) \<Rightarrow> Some r
      | Some (Inl e) \<Rightarrow> Some (th, [Sleep (1 / 10)]))"

text \<open>
  \<open>run\<close> against a schedule: one entry per pass, giving the outside world of that pass and
  whether another thread calls \<open>stop()\<close> while the pass is under way. The loop reads
  \<open>self.running\<close> only at its head. \<open>Exited\<close>: the loop was left; \<open>Waiting\<close>: a \<open>put\<close> never
  returned; \<open>Looping\<close>: the schedule ended with the flag still set.
\<close>

datatype 'f run_result =
    Exited "'f capture_thread" "'f effect list"
  | Waiting "'f effect list"
  | Looping "'f capture_thread" "'f effect list"

fun add_effects :: "'f effect list \<Rightarrow> 'f run_result \<Rightarrow> 'f run_result" where
  "add_effects es (Exited th es') = Exited th (es @ es')"
| "add_effects es (Waiting es') = Waiting (es @ es')"
| "add_effects es (Looping th es') = Looping th (es @ es')"

fun run :: "('f adb_env \<times> bool) list \<Rightarrow> 'f capture_thread \<Rightarrow> 'f run_result" where
  "run [] th = (if running th then Looping th [] else Exited th [])"
| "run ((env, stop_called) # rest) th =
     (if running th then
        (case run_iteration env th of
           None \<Rightarrow> Waiting []
         | Some (th', es) \<Rightarrow>
             add_effects es (run rest (if stop_called then stop th' else th')))
      else Exited th [])"

text \<open>
  One pass through \<open>while True\<close> in \<open>display_optimized_window\<close>. The three readings of
  \<open>time.time()\<close> are inputs: \<open>frame_start\<close>, \<open>current_time\<close> (read only after a frame was
  shown) and the reading that ends the frame; so is the value of \<open>cv2.waitKey(1)\<close>. The
  result carries the loop variables, the queue, the effects and whether the loop breaks.
  The first argument is the parameter \<open>target_width\<close>.
  \<open>1.0 / target_fps\<close> raises \<open>ZeroDivisionError\<close> when \<open>target_fps\<close> is zero.
\<close>

record display_state =
  frame_count :: int
  last_fps_update :: real

definition display_iteration ::
  "int \<Rightarrow> int \<Rightarrow> real \<Rightarrow> real \<Rightarrow> real \<Rightarrow> int \<Rightarrow> display_state \<Rightarrow> 'f queue \<Rightarrow>
     py_exception + (display_state \<times> 'f queue \<times> 'f effect list \<times> bool)" where
  "display_iteration width target_fps frame_start current_time frame_end key st q =
     (let (img, q') = get_latest_frame q;
          (st', shown) =
            (case img of
               None \<Rightarrow> (st, [])
             | Some frame \<Rightarrow>
                 let count = frame_count st + 1;
                     elapsed = current_time - last_fps_update st
                 in if 1 \<le> elapsed
                    then (\<lparr>frame_count = 0, last_fps_update = current_time\<rparr>,
                          [Imshow frame, SetWindowTitle (real_of_int count / elapsed) width])
                    else (st\<lparr>frame_count := count\<rparr>, [Imshow frame]));
          elapsed_frame = frame_end - frame_start
      in if target_fps = 0 then Inl (ZeroDivisionError ''float division by zero'')
         else
           let target_frame_time = 1 / real_of_int target_fps;
               sleep_time = max (1 / 1000) (target_frame_time - elapsed_frame)
           in Inr (st', q', shown @ [Sleep sleep_time], key mod 256 = 113))"


section \<open>The HTTP handlers of \<open>showPC.py\<close>\<close>

text \<open>
  What a view function returns: \<open>Response(data, mimetype=m)\<close> (status 200) or
  \<open>jsonify(dict)\<close>, alone (status 200) or paired with a status. An exception that leaves the
  view function is \<open>Inl\<close>; Flask answers it with an error status, never with 200.
\<close>

datatype response =
    Response string string int
  | Jsonify "(string \<times> json) list" int




text \<open>
  The outside of \<open>handle_click\<close>: \<open>request.json\<close>, \<open>pyautogui.size()\<close>,
  \<open>pyautogui.moveTo(x, y, duration=d)\<close> and \<open>pyautogui.click()\<close>; the last two give the
  exception they raise, if any.
\<close>

record click_env =
  request_json :: "py_exception + json"
  screen_size :: "py_exception + (int \<times> int)"
  moveTo :: "int \<Rightarrow> int \<Rightarrow> real \<Rightarrow> py_exception option"
  click :: "py_exception option"

datatype input_action = MoveTo int int real | Click

fun type_name :: "json \<Rightarrow> string" where
  "type_name JNull = ''NoneType''"
| "type_name (JBool _) = ''bool''"
| "type_name (JInt _) = ''int''"
| "type_name (JFloat _) = ''float''"
| "type_name (JStr _) = ''str''"
| "type_name (JArr _) = ''list''"
| "type_name (JObj _) = ''dict''"

text \<open>\<open>data.get(key, default)\<close>: only a dict has the method.\<close>

fun dict_get :: "json \<Rightarrow> string \<Rightarrow> json \<Rightarrow> py_exception + json" where
  "dict_get (JObj kvs) key dflt = Inr (case map_of kvs key of None \<Rightarrow> dflt | Some v \<Rightarrow> v)"
| "dict_get v key dflt =
     Inl (AttributeError (type_name v @ '' object has no attribute get''))"

text \<open>
  \<open>int(v * n)\<close> for an int \<open>n\<close>: an int is multiplied exactly; a float is multiplied by the
  converted \<open>n\<close> as a double and the product truncated; a bool counts as 0 or 1; a string is
  repeated and then read as an integer literal; \<open>None\<close> and a dict cannot be multiplied;
  and a repeated list is no argument for \<open>int\<close>.
\<close>

fun int_times :: "json \<Rightarrow> int \<Rightarrow> py_exception + int" where
  "int_times (JInt k) n = Inr (k * n)"
| "int_times (JFloat x) n =
     (case float_of_int n of
        Inl e \<Rightarrow> Inl e
      | Inr nf \<Rightarrow> int_of_float (fmul x nf))"
| "int_times (JBool b) n = Inr ((if b then 1 else 0) * n)"
| "int_times (JStr s) n = int_of_str (concat (replicate (nat n) s))"
| "int_times (JArr vs) n = Inl (TypeError ''int() argument must be a string or a real number'')"
| "int_times v n = Inl (TypeError (''unsupported operand type(s) for *: '' @ type_name v))"

text \<open>
  \<open>handle_click\<close>: the response and the pointer actions that were carried out. The
  \<open>try\<close> block is \<open>click_body\<close>; an exception comes with the actions done before it.
\<close>

definition click_body ::
  "click_env \<Rightarrow> (py_exception \<times> input_action list) + (response \<times> input_action list)" where
  "click_body env =
     (case request_json env of
        Inl e \<Rightarrow> Inl (e, [])
      | Inr data \<Rightarrow>
     (case dict_get data ''x'' (JInt 0) of
        Inl e \<Rightarrow> Inl (e, [])
      | Inr x \<Rightarrow>
     (case dict_get data ''y'' (JInt 0) of
        Inl e \<Rightarrow> Inl (e, [])
      | Inr y \<Rightarrow>
     (case screen_size env of
        Inl e \<Rightarrow> Inl (e, [])
      | Inr (screen_width, screen_height) \<Rightarrow>
     (case int_times x screen_width of
        Inl e \<Rightarrow> Inl (e, [])
      | Inr click_x \<Rightarrow>
     (case int_times y screen_height of
        Inl e \<Rightarrow> Inl (e, [])
      | Inr click_y \<Rightarrow>
     (case moveTo env click_x click_y (1 / 10) of
        Some e \<Rightarrow> Inl (e, [])
      | None \<Rightarrow>
     (case click env of
        Some e \<Rightarrow> Inl (e, [MoveTo click_x click_y (1 / 10)])
      | None \<Rightarrow>
          Inr (Jsonify [(''status'', JStr ''success''), (''x'', JInt click_x), (''y'', JInt click_y)] 200,
               [MoveTo click_x click_y (1 / 10), Click])))))))))"

definition handle_click :: "click_env \<Rightarrow> response \<times> input_action list" where
  "handle_click env =
     (case click_body env of
        Inr r \<Rightarrow> r
      | Inl (e, acts) \<Rightarrow>
          (Jsonify [(''status'', JStr ''error''), (''message'', JStr (str_exc e))] 500, acts))"

text \<open>
  The value of \<open>x * n\<close> for a JSON number \<open>x\<close> and an int \<open>n\<close>, when it is a finite number:
  the exact product for an int \<open>x\<close>, the double nearest to the exact product for a float
  \<open>x\<close>. It is used to state what the handler computes for numeric bodies.
\<close>

fun product :: "json \<Rightarrow> int \<Rightarrow> real option" where
  "product (JInt k) n = Some (real_of_int (k * n))"
| "product (JFloat (Fin x)) n =
     (case to_double (real_of_int n) of
        Fin nf \<Rightarrow> (case to_double (x * nf) of Fin p \<Rightarrow> Some p | _ \<Rightarrow> None)
      | _ \<Rightarrow> None)"
| "product v n = None"


section \<open>Properties of the frame queue\<close>

lemma push_frame_bounded:
  assumes "0 < maxsize q" and "qsize q \<le> maxsize q"
  shows "push_frame f q =
           Some (q\<lparr>items := drop (length (items q @ [f]) - nat (maxsize q)) (items q @ [f])\<rparr>)"
proof (cases "items q")
  case Nil
  with assms show ?thesis
    by (simp add: push_frame_def full_def put_def get_nowait_def qsize_def)
next
  case (Cons x xs)
  show ?thesis
  proof (cases "maxsize q \<le> qsize q")
    case True
    with assms have len: "int (length xs) + 1 = maxsize q"
      using Cons by (simp add: qsize_def)
    then have "length xs + 1 = nat (maxsize q)" by linarith
    then show ?thesis using assms Cons len
      by (simp add: push_frame_def full_def put_def get_nowait_def qsize_def)
  next
    case False
    then have "length (items q) < nat (maxsize q)"
      by (simp add: qsize_def)
    then show ?thesis using assms False
      by (simp add: push_frame_def full_def put_def qsize_def)
  qed
qed

lemma lastn_append:
  "drop (length (drop (length ys - n) ys @ fs) - n) (drop (length ys - n) ys @ fs)
     = drop (length (ys @ fs) - n) (ys @ fs)"
  by (cases "length ys \<le> n") (auto simp: add.commute)

lemma pushes_bounded:
  assumes "0 < maxsize q" and "qsize q \<le> maxsize q"
  shows "pushes fs q =
           Some (q\<lparr>items := drop (length (items q @ fs) - nat (maxsize q)) (items q @ fs)\<rparr>)"
  using assms
proof (induction fs arbitrary: q)
  case Nil
  then have "length (items q) \<le> nat (maxsize q)" by (simp add: qsize_def)
  then show ?case by simp
next
  case (Cons f fs)
  define n where "n = nat (maxsize q)"
  define ys where "ys = items q @ [f]"
  define q' where "q' = q\<lparr>items := drop (length ys - n) ys\<rparr>"
  have step: "push_frame f q = Some q'"
    using push_frame_bounded [OF Cons.prems] by (simp add: q'_def ys_def n_def)
  have m: "0 < maxsize q'" using Cons.prems by (simp add: q'_def)
  have "length (drop (length ys - n) ys) \<le> n" by simp
  then have b: "qsize q' \<le> maxsize q'"
    using Cons.prems(1) by (simp add: qsize_def q'_def n_def del: length_drop)
  have "pushes fs q' =
          Some (q'\<lparr>items := drop (length (items q' @ fs) - nat (maxsize q')) (items q' @ fs)\<rparr>)"
    using m b by (rule Cons.IH)
  also have "\<dots> = Some (q\<lparr>items := drop (length (ys @ fs) - n) (ys @ fs)\<rparr>)"
    by (simp add: q'_def n_def lastn_append del: length_drop drop_append length_append)
  finally show ?case using step by (simp add: ys_def n_def)
qed

lemma pushes_Queue:
  assumes "0 < N"
  shows "pushes fs (Queue N) = Some \<lparr>maxsize = N, items = drop (length fs - nat N) fs\<rparr>"
  using pushes_bounded [of "Queue N" fs] assms
  by (simp add: Queue_def qsize_def)

lemma pushes_unbounded:
  assumes "maxsize q \<le> 0"
  shows "pushes fs q = Some (q\<lparr>items := items q @ fs\<rparr>)"
  using assms
  by (induction fs arbitrary: q) (simp_all add: push_frame_def full_def put_def)

subsection \<open>C1: the queue bound\<close>

text \<open>
  C1, as the claim words it, speaks of every capacity \<open>N\<close>. A \<open>Queue\<close> whose \<open>maxsize\<close> is
  zero never reports \<open>full()\<close>, so nothing is evicted: three pushes into
  \<open>Queue(maxsize=0)\<close> leave three frames, where the claim has none.
\<close>

theorem queue_bound_counterexample:
  "pushes [1, 2, 3 :: nat] (Queue 0) = Some \<lparr>maxsize = 0, items = [1, 2, 3]\<rparr>"
  by (simp add: Queue_def push_frame_def full_def put_def)

text \<open>
  C1 (amended): for every capacity \<open>N \<ge> 1\<close> and every sequence of \<open>N + k\<close> pushes into the
  new frame queue with no pop in between, every push returns, the queue afterwards holds
  exactly \<open>N\<close> frames, namely the pushed frames from the \<open>(k+1)\<close>-th on; the queue length is at
  most \<open>N\<close> after every prefix of the pushes; and a push into a queue holding \<open>N\<close> frames
  removes exactly the oldest one before it appends.
\<close>

theorem queue_bound:
  fixes fs :: "'f list"
  assumes "0 < N" and "length fs = nat N + k"
  shows "pushes fs (Queue N) = Some \<lparr>maxsize = N, items = drop k fs\<rparr>
       \<and> length (drop k fs) = nat N
       \<and> (\<forall>j \<le> length fs. \<exists>q. pushes (take j fs) (Queue N) = Some q \<and> qsize q \<le> N)
       \<and> (\<forall>(q :: 'f queue) f. maxsize q = N \<and> qsize q = N \<longrightarrow>
             push_frame f q = Some (q\<lparr>items := tl (items q) @ [f]\<rparr>))"
proof -
  have k: "length fs - nat N = k" using assms by simp
  have 1: "pushes fs (Queue N) = Some \<lparr>maxsize = N, items = drop k fs\<rparr>"
    using pushes_Queue [OF assms(1), of fs] k by simp
  have 2: "length (drop k fs) = nat N" using assms by simp
  have 3: "\<exists>q. pushes (take j fs) (Queue N) = Some q \<and> qsize q \<le> N" for j
    using pushes_Queue [OF assms(1), of "take j fs"] assms(1)
    by (simp add: qsize_def)
  have 4: "push_frame f q = Some (q\<lparr>items := tl (items q) @ [f]\<rparr>)"
    if "maxsize q = N \<and> qsize q = N" for q :: "'f queue" and f
  proof -
    from that assms(1) have "items q \<noteq> []" by (auto simp: qsize_def)
    then obtain x xs where "items q = x # xs" by (cases "items q") auto
    with that assms(1) show ?thesis
      by (simp add: push_frame_def full_def get_nowait_def put_def qsize_def)
  qed
  from 1 2 3 4 show ?thesis by (intro conjI allI impI)
qed

theorem queue_bound_witness:
  "(0::int) < 2 \<and> length [10, 20, 30, 40, 50 :: nat] = nat 2 + 3
   \<and> pushes [10, 20, 30, 40, 50 :: nat] (Queue 2) = Some \<lparr>maxsize = 2, items = [40, 50]\<rparr>"
proof -
  have a: "(0::int) < 2" and b: "length [10, 20, 30, 40, 50 :: nat] = nat 2 + 3" by simp_all
  from queue_bound [OF a b]
  have "pushes [10, 20, 30, 40, 50 :: nat] (Queue 2)
          = Some \<lparr>maxsize = 2, items = drop 3 [10, 20, 30, 40, 50]\<rparr>" by (rule conjunct1)
  with a b show ?thesis by (simp del: pushes.simps)
qed

subsection \<open>C2: what a pop returns after an overflow\<close>

text \<open>
  C2 says that after pushing \<open>F1, F2, F3\<close> into a queue of capacity below 3, one pop returns
  neither \<open>F1\<close> nor \<open>F2\<close>: it returns the latest frame, which is also what the name
  \<open>get_latest_frame\<close> and the comment at its call say. Evaluated at the default capacity 2:
  the overflow drops \<open>F1\<close>, the oldest, and leaves \<open>F2, F3\<close>; \<open>get_latest_frame\<close> then takes
  the front of the queue and returns \<open>F2\<close>, while the newer \<open>F3\<close> stays queued.
\<close>

theorem get_latest_frame_stale:
  "pushes [1, 2, 3 :: nat] (Queue 2) = Some \<lparr>maxsize = 2, items = [2, 3]\<rparr>
   \<and> get_latest_frame \<lparr>maxsize = 2, items = [2, 3 :: nat]\<rparr> = (Some 2, \<lparr>maxsize = 2, items = [3]\<rparr>)"
  by (simp add: Queue_def push_frame_def full_def put_def get_nowait_def qsize_def get_latest_frame_def)


section \<open>Properties of the capture thread\<close>


subsection \<open>C7: capture failures are reported as no frame\<close>



subsection \<open>The producer loop\<close>

lemma push_frame_ok:
  assumes "queue_ok q"
  shows "\<exists>q'. push_frame f q = Some q' \<and> queue_ok q'"
proof (cases "0 < maxsize q")
  case True
  with assms have "qsize q \<le> maxsize q" by (simp add: queue_ok_def)
  from push_frame_bounded [OF True this, of f] True show ?thesis
    by (auto simp: queue_ok_def qsize_def)
next
  case False
  then show ?thesis
    by (simp add: push_frame_def full_def put_def queue_ok_def)
qed

lemma run_body_returns: "run_body env th \<noteq> Some (Inl e)"
  by (simp add: run_body_def split: option.splits)

lemma run_iteration_effects:
  assumes "run_iteration env th = Some (th', es)"
  shows "es = [Sleep (1 / 100)] \<and> running th' = running th \<and> daemon th' = daemon th"
  using assms
  by (auto simp: run_iteration_def run_body_def split: option.splits sum.splits)

lemma run_iteration_ok:
  assumes "queue_ok (frame_queue th)"
  shows "\<exists>th'. run_iteration env th = Some (th', [Sleep (1 / 100)])
           \<and> queue_ok (frame_queue th') \<and> running th' = running th \<and> daemon th' = daemon th"
proof (cases "get_screenshot_with_size env (target_width th)")
  case None
  with assms show ?thesis by (simp add: run_iteration_def run_body_def)
next
  case (Some f)
  from push_frame_ok [OF assms, of f] obtain q'
    where "push_frame f (frame_queue th) = Some q'" and "queue_ok q'" by blast
  with Some show ?thesis by (simp add: run_iteration_def run_body_def)
qed

lemma run_stopped: "\<not> running th \<Longrightarrow> run sched th = Exited th []"
  by (cases sched) auto

lemma run_after_stop:
  "run (pre @ (env, True) # post) th = run (pre @ [(env, True)]) th"
proof (induction pre arbitrary: th)
  case Nil
  show ?case
    by (simp add: run_stopped stop_def split: option.splits)
next
  case (Cons p pre)
  obtain e s where p: "p = (e, s)" by (cases p)
  show ?case
    by (simp add: p Cons.IH split: option.splits)
qed

lemma run_exits:
  assumes "queue_ok (frame_queue th)" and "running th" and "\<forall>p \<in> set pre. \<not> snd p"
  shows "\<exists>th' es. run (pre @ [(env, True)]) th = Exited th' es
           \<and> length es = Suc (length pre) \<and> \<not> running th' \<and> daemon th' = daemon th"
  using assms
proof (induction pre arbitrary: th)
  case Nil
  from run_iteration_ok [OF Nil.prems(1), of env] obtain th1
    where "run_iteration env th = Some (th1, [Sleep (1 / 100)])" and "daemon th1 = daemon th"
    by blast
  with Nil.prems(2) show ?case
    by (simp add: run_stopped stop_def)
next
  case (Cons p pre)
  obtain e where p: "p = (e, False)" using Cons.prems(3) by (cases p) auto
  from run_iteration_ok [OF Cons.prems(1), of e] obtain th1
    where it: "run_iteration e th = Some (th1, [Sleep (1 / 100)])"
      and ok: "queue_ok (frame_queue th1)" and r: "running th1 = running th"
      and d: "daemon th1 = daemon th"
    by blast
  from Cons.prems have "running th1" and "\<forall>p \<in> set pre. \<not> snd p" using r by auto
  from Cons.IH [OF ok this] obtain th' es
    where "run (pre @ [(env, True)]) th1 = Exited th' es" and "length es = Suc (length pre)"
      and "\<not> running th'" and "daemon th' = daemon th1"
    by blast
  with it d Cons.prems(2) show ?case
    by (simp add: p)
qed

subsection \<open>C6: the sleep after a capture that gave no frame\<close>

text \<open>
  C6 says that after an Unavailable capture the producer sleeps about 100 ms. Evaluated at
  a capture whose bridge executable is missing: the capture gives \<open>None\<close>, the pass pushes
  nothing and its only sleep is the 10 ms one. (By \<open>run_body_returns\<close> and
  \<open>run_iteration_effects\<close> no pass ever reaches the 100 ms sleep of the handler.)
\<close>

theorem unavailable_sleeps_short:
  "get_screenshot_with_size
     \<lparr>wm_size = Inl (FileNotFoundError ''adb.exe''), screencap = Inl (FileNotFoundError ''adb.exe''),
      imdecode = (\<lambda>b. Inr (Some (0 :: nat))), resize = (\<lambda>img sz. Inr img)\<rparr> 480 = None
   \<and> run_iteration
     \<lparr>wm_size = Inl (FileNotFoundError ''adb.exe''), screencap = Inl (FileNotFoundError ''adb.exe''),
      imdecode = (\<lambda>b. Inr (Some (0 :: nat))), resize = (\<lambda>img sz. Inr img)\<rparr>
     (ScreenCaptureThread 480 2) = Some (ScreenCaptureThread 480 2, [Sleep (1 / 100)])"
  by (simp add: run_iteration_def run_body_def get_screenshot_with_size_def screenshot_body_def)

subsection \<open>C9: stopping the producer\<close>

text \<open>
  C9: cancellation is cooperative. \<open>stop()\<close> only clears the flag \<open>running\<close>, which the
  loop reads at the head of every pass. If \<open>stop()\<close> is called during a pass, the loop
  finishes that pass and exits: nothing scheduled after it runs (one sleep per pass, and
  \<open>post\<close> does not matter). If the flag is already cleared at the loop head, no pass runs.
  The thread is created running and as a daemon, and neither the loop nor \<open>stop()\<close> changes
  the daemon flag. (That a daemon thread does not outlive its process is Python's meaning
  of the flag.)
\<close>

theorem cooperative_stop:
  fixes th :: "'f capture_thread"
  assumes "queue_ok (frame_queue th)" and "running th" and "\<forall>p \<in> set pre. \<not> snd p"
  shows "(\<exists>th' es. run (pre @ (env, True) # post) th = Exited th' es
            \<and> length es = Suc (length pre) \<and> \<not> running th' \<and> daemon th' = daemon th)
       \<and> run sched (stop th) = Exited (stop th) []
       \<and> \<not> running (stop th) \<and> daemon (stop th) = daemon th
       \<and> running (ScreenCaptureThread tw n :: 'f capture_thread)
       \<and> daemon (ScreenCaptureThread tw n :: 'f capture_thread)
       \<and> queue_ok (frame_queue (ScreenCaptureThread tw n :: 'f capture_thread))"
proof -
  have "\<exists>th' es. run (pre @ (env, True) # post) th = Exited th' es
            \<and> length es = Suc (length pre) \<and> \<not> running th' \<and> daemon th' = daemon th"
    using run_exits [OF assms, of env] by (simp only: run_after_stop [of pre env post th])
  moreover have "run sched (stop th) = Exited (stop th) []"
    by (rule run_stopped) (simp add: stop_def)
  moreover have "n \<le> 0 \<or> 0 \<le> n" by linarith
  ultimately show ?thesis
    by (simp add: stop_def ScreenCaptureThread_def Queue_def queue_ok_def qsize_def)
qed

theorem cooperative_stop_witness:
  "\<exists>th' es.
     run ([(\<lparr>wm_size = Inl (TimeoutExpired ''adb''), screencap = Inl (TimeoutExpired ''adb''),
             imdecode = (\<lambda>b. Inr (Some (0 :: nat))), resize = (\<lambda>img sz. Inr img)\<rparr>, False)]
          @ (\<lparr>wm_size = Inl (TimeoutExpired ''adb''), screencap = Inl (TimeoutExpired ''adb''),
              imdecode = (\<lambda>b. Inr (Some (0 :: nat))), resize = (\<lambda>img sz. Inr img)\<rparr>, True)
          # [(\<lparr>wm_size = Inl (TimeoutExpired ''adb''), screencap = Inl (TimeoutExpired ''adb''),
              imdecode = (\<lambda>b. Inr (Some (0 :: nat))), resize = (\<lambda>img sz. Inr img)\<rparr>, False)])
         (ScreenCaptureThread 480 2) = Exited th' es
     \<and> length es = 2 \<and> \<not> running th'"
proof -
  let ?e = "\<lparr>wm_size = Inl (TimeoutExpired ''adb''), screencap = Inl (TimeoutExpired ''adb''),
             imdecode = (\<lambda>b. Inr (Some (0 :: nat))), resize = (\<lambda>img sz. Inr img)\<rparr>"
  let ?th = "ScreenCaptureThread 480 2 :: nat capture_thread"
  have a: "queue_ok (frame_queue ?th)"
    by (simp add: ScreenCaptureThread_def Queue_def queue_ok_def qsize_def)
  have b: "running ?th" by (simp add: ScreenCaptureThread_def)
  have c: "\<forall>p \<in> set [(?e, False)]. \<not> snd p" by simp
  from cooperative_stop [OF a b c, where env = ?e and post = "[(?e, False)]", THEN conjunct1]
  obtain th' es where "run ([(?e, False)] @ (?e, True) # [(?e, False)]) ?th = Exited th' es"
    and "length es = Suc (length [(?e, False)])" and "\<not> running th'"
    by blast
  then have "\<exists>th' es. run ([(?e, False)] @ (?e, True) # [(?e, False)]) ?th = Exited th' es
               \<and> length es = 2 \<and> \<not> running th'"
    by (simp del: run.simps append.simps)
  then show ?thesis .
qed

section \<open>Properties of the display loop\<close>

subsection \<open>C8: pacing\<close>

text \<open>
  C8: in every pass of the display loop (for a target rate other than zero) the last effect is
  one sleep of exactly \<open>max(0.001, 1/target_fps - elapsed_frame)\<close> seconds, where
  \<open>elapsed_frame\<close> is the time since the pass started; no other sleep happens in the pass.
  The sleep is positive, and the pass lasts the target interval \<open>1/target_fps\<close> unless
  the work before the sleep came within a millisecond of it or took longer.
\<close>

theorem display_pacing:
  assumes "target_fps \<noteq> 0"
  shows "(\<exists>st' q' shown quit.
            display_iteration width target_fps frame_start current_time frame_end key st q
              = Inr (st', q',
                     shown @ [Sleep (max (1 / 1000)
                                (1 / real_of_int target_fps - (frame_end - frame_start)))],
                     quit)
            \<and> (\<forall>s. Sleep s \<notin> set shown))
       \<and> 0 < max (1 / 1000) (1 / real_of_int target_fps - (frame_end - frame_start))
       \<and> (frame_end - frame_start)
            + max (1 / 1000) (1 / real_of_int target_fps - (frame_end - frame_start))
           = max ((frame_end - frame_start) + 1 / 1000) (1 / real_of_int target_fps)"
  using assms
  by (auto simp: display_iteration_def get_latest_frame_def get_nowait_def Let_def
           split: list.splits)

theorem display_pacing_witness:
  "(15::int) \<noteq> 0
   \<and> display_iteration 480 15 100 (10001 / 100) (5001 / 50) (-1)
        \<lparr>frame_count = 3, last_fps_update = 99\<rparr> \<lparr>maxsize = 2, items = [7 :: nat, 8]\<rparr>
      = Inr (\<lparr>frame_count = 0, last_fps_update = 10001 / 100\<rparr>, \<lparr>maxsize = 2, items = [8]\<rparr>,
             [Imshow 7, SetWindowTitle (400 / 101) 480, Sleep (7 / 150)], False)"
proof -
  have a: "(15::int) \<noteq> 0" by simp
  from display_pacing [OF a, where width = 480 and frame_start = 100
      and current_time = "10001 / 100" and frame_end = "5001 / 50" and key = "- 1"
      and st = "\<lparr>frame_count = 3, last_fps_update = 99\<rparr>"
      and q = "\<lparr>maxsize = 2, items = [7 :: nat, 8]\<rparr>", THEN conjunct1]
  obtain st' q' shown quit where
    "display_iteration 480 15 100 (10001 / 100) (5001 / 50) (- 1)
        \<lparr>frame_count = 3, last_fps_update = 99\<rparr> \<lparr>maxsize = 2, items = [7 :: nat, 8]\<rparr>
      = Inr (st', q', shown @ [Sleep (max (1 / 1000) (1 / real_of_int 15 - (5001 / 50 - 100)))], quit)"
    by blast
  then show ?thesis
    by (simp add: display_iteration_def get_latest_frame_def get_nowait_def Let_def)
qed


section \<open>Properties of the HTTP handlers\<close>

subsection \<open>C4: what \<open>GET /screen\<close> answers\<close>




subsection \<open>C5: the quality clamp\<close>



subsection \<open>C3: the coordinates of a click\<close>

lemma py_trunc_of_int: "py_trunc (real_of_int k) = k"
  by (simp add: py_trunc_def)

lemma int_times_product:
  assumes "product v n = Some p"
  shows "int_times v n = Inr (py_trunc p)"
proof (cases v)
  case (JInt k)
  with assms have "p = real_of_int (k * n)" by simp
  with JInt show ?thesis by (simp only: py_trunc_of_int int_times.simps)
next
  case (JFloat x)
  with assms show ?thesis
    by (cases x) (auto simp: float_of_int_def split: pyfloat.splits)
qed (use assms in simp_all)

lemma py_trunc_toward_zero:
  "\<bar>real_of_int (py_trunc r)\<bar> \<le> \<bar>r\<bar> \<and> \<bar>r - real_of_int (py_trunc r)\<bar> < 1"
  unfolding py_trunc_def by (auto; linarith)

text \<open>
  C3, as the claim words it, has the target computed by rounding. The handler computes
  \<open>int(x * screen_width)\<close>, which truncates: on a 1080 by 2400 display the body
  \<open>{x: 0.03125, y: 0.03125}\<close> gives \<open>x * width = 33.75\<close> (exactly, in doubles too), which
  rounds to 34, and the handler moves to 33.
\<close>

theorem click_coordinates_counterexample:
  "handle_click
     \<lparr>request_json = Inr (JObj [(''x'', JFloat (Fin (1 / 32))), (''y'', JFloat (Fin (1 / 32)))]),
      screen_size = Inr (1080, 2400), moveTo = (\<lambda>x y d. None), click = None\<rparr>
     = (Jsonify [(''status'', JStr ''success''), (''x'', JInt 33), (''y'', JInt 75)] 200,
        [MoveTo 33 75 (1 / 10), Click])
   \<and> round ((1 / 32 :: real) * 1080) = 34"
proof -
  have x: "int_times (JFloat (Fin (1 / 32))) 1080 = Inr 33" by code_simp
  have y: "int_times (JFloat (Fin (1 / 32))) 2400 = Inr 75" by code_simp
  have r: "round ((1 / 32 :: real) * 1080) = 34" by (simp add: round_def)
  show ?thesis using x y r
    by (simp add: handle_click_def click_body_def del: int_times.simps)
qed

text \<open>
  C3 (amended): for every \<open>POST /click\<close> whose body gives numbers \<open>x\<close> and \<open>y\<close> and whose
  pointer calls do not raise, the target is \<open>(int(x*width), int(y*height))\<close> for the display
  size \<open>width\<close> by \<open>height\<close> that \<open>pyautogui.size()\<close> returns: each product as Python computes
  it (for a float, the double nearest to the exact product), truncated toward zero, so
  never larger in magnitude than the product and less than 1 away from it. The handler
  moves there, clicks, and answers \<open>{"status": "success", "x": int, "y": int}\<close> with status
  200. For the size 1080 by 2400 and the body \<open>{x: 0.5, y: 0.5}\<close> the target is
  (540, 1200); that instance is the first half of the witness. Its second half takes for
  \<open>x\<close> the double nearest to 5/1080: the double product is 5 and the handler moves to 5.
\<close>

theorem click_coordinates:
  assumes "request_json env = Inr (JObj kvs)"
    and "map_of kvs ''x'' = Some vx" and "product vx w = Some px"
    and "map_of kvs ''y'' = Some vy" and "product vy h = Some py"
    and "screen_size env = Inr (w, h)"
    and "moveTo env (py_trunc px) (py_trunc py) (1 / 10) = None"
    and "click env = None"
  shows "handle_click env
           = (Jsonify [(''status'', JStr ''success''),
                       (''x'', JInt (py_trunc px)), (''y'', JInt (py_trunc py))] 200,
              [MoveTo (py_trunc px) (py_trunc py) (1 / 10), Click])
       \<and> \<bar>real_of_int (py_trunc px)\<bar> \<le> \<bar>px\<bar> \<and> \<bar>px - real_of_int (py_trunc px)\<bar> < 1
       \<and> \<bar>real_of_int (py_trunc py)\<bar> \<le> \<bar>py\<bar> \<and> \<bar>py - real_of_int (py_trunc py)\<bar> < 1"
proof -
  have "handle_click env
           = (Jsonify [(''status'', JStr ''success''),
                       (''x'', JInt (py_trunc px)), (''y'', JInt (py_trunc py))] 200,
              [MoveTo (py_trunc px) (py_trunc py) (1 / 10), Click])"
    using assms int_times_product [OF assms(3)] int_times_product [OF assms(5)]
    by (simp add: handle_click_def click_body_def)
  with py_trunc_toward_zero [of px] py_trunc_toward_zero [of py] show ?thesis by simp
qed

theorem click_coordinates_witness:
  "handle_click
     \<lparr>request_json = Inr (JObj [(''x'', JFloat (Fin (1 / 2))), (''y'', JFloat (Fin (1 / 2)))]),
      screen_size = Inr (1080, 2400), moveTo = (\<lambda>x y d. None), click = None\<rparr>
     = (Jsonify [(''status'', JStr ''success''), (''x'', JInt 540), (''y'', JInt 1200)] 200,
        [MoveTo 540 1200 (1 / 10), Click])
   \<and> handle_click
     \<lparr>request_json = Inr (JObj [(''x'', JFloat (Fin (667199944795629 / 144115188075855872))),
                                (''y'', JInt 1)]),
      screen_size = Inr (1080, 2400), moveTo = (\<lambda>x y d. None), click = None\<rparr>
     = (Jsonify [(''status'', JStr ''success''), (''x'', JInt 5), (''y'', JInt 2400)] 200,
        [MoveTo 5 2400 (1 / 10), Click])"
proof -
  let ?e1 = "\<lparr>request_json = Inr (JObj [(''x'', JFloat (Fin (1 / 2))), (''y'', JFloat (Fin (1 / 2)))]),
      screen_size = Inr (1080, 2400), moveTo = (\<lambda>x y d. None), click = None\<rparr>"
  let ?e2 = "\<lparr>request_json = Inr (JObj [(''x'', JFloat (Fin (667199944795629 / 144115188075855872))),
                                (''y'', JInt 1)]),
      screen_size = Inr (1080, 2400), moveTo = (\<lambda>x y d. None), click = None\<rparr>"
  have a: "product (JFloat (Fin (1 / 2))) 1080 = Some 540" by code_simp
  have b: "product (JFloat (Fin (1 / 2))) 2400 = Some 1200" by code_simp
  have c: "product (JFloat (Fin (667199944795629 / 144115188075855872))) 1080 = Some 5" by code_simp
  have d: "product (JInt 1) 2400 = Some 2400" by simp
  have t: "py_trunc 540 = 540" "py_trunc 1200 = 1200" "py_trunc 5 = 5" "py_trunc 2400 = 2400"
    by (simp_all add: py_trunc_def)
  have "handle_click ?e1
          = (Jsonify [(''status'', JStr ''success''),
                      (''x'', JInt (py_trunc 540)), (''y'', JInt (py_trunc 1200))] 200,
             [MoveTo (py_trunc 540) (py_trunc 1200) (1 / 10), Click])"
    by (rule click_coordinates [where kvs = "[(''x'', JFloat (Fin (1 / 2))), (''y'', JFloat (Fin (1 / 2)))]"
          and w = 1080 and h = 2400 and vx = "JFloat (Fin (1 / 2))" and vy = "JFloat (Fin (1 / 2))",
          THEN conjunct1])
       (simp_all add: a b del: product.simps)
  moreover have "handle_click ?e2
          = (Jsonify [(''status'', JStr ''success''),
                      (''x'', JInt (py_trunc 5)), (''y'', JInt (py_trunc 2400))] 200,
             [MoveTo (py_trunc 5) (py_trunc 2400) (1 / 10), Click])"
    by (rule click_coordinates [where kvs = "[(''x'', JFloat (Fin (667199944795629 / 144115188075855872))),
                                (''y'', JInt 1)]"
          and w = 1080 and h = 2400
          and vx = "JFloat (Fin (667199944795629 / 144115188075855872))" and vy = "JInt 1",
          THEN conjunct1])
       (simp_all add: c d del: product.simps)
  ultimately show ?thesis by (simp only: t) 
qed

subsection \<open>C10: a body without \<open>x\<close> or \<open>y\<close>\<close>

text \<open>
  C10: when the JSON object of a \<open>POST /click\<close> has no \<open>x\<close> (or no \<open>y\<close>), the handler takes 0
  for it and goes on: provided the other coordinate converts and the display size and the
  pointer calls are obtained without an exception, it moves to the left (or top) edge,
  clicks, and answers \<open>{"status": "success", ...}\<close> with status 200. The missing field is
  never a reason to reject the request.
\<close>

theorem click_missing_coordinate:
  assumes "request_json env = Inr (JObj kvs)"
    and "screen_size env = Inr (w, h)"
    and "click env = None"
  shows "(map_of kvs ''x'' = None
            \<and> int_times (case map_of kvs ''y'' of None \<Rightarrow> JInt 0 | Some v \<Rightarrow> v) h = Inr cy
            \<and> moveTo env 0 cy (1 / 10) = None
          \<longrightarrow> handle_click env
                = (Jsonify [(''status'', JStr ''success''), (''x'', JInt 0), (''y'', JInt cy)] 200,
                   [MoveTo 0 cy (1 / 10), Click]))
       \<and> (map_of kvs ''y'' = None
            \<and> int_times (case map_of kvs ''x'' of None \<Rightarrow> JInt 0 | Some v \<Rightarrow> v) w = Inr cx
            \<and> moveTo env cx 0 (1 / 10) = None
          \<longrightarrow> handle_click env
                = (Jsonify [(''status'', JStr ''success''), (''x'', JInt cx), (''y'', JInt 0)] 200,
                   [MoveTo cx 0 (1 / 10), Click]))"
  using assms
  by (simp add: handle_click_def click_body_def)

theorem click_missing_coordinate_witness:
  "handle_click
     \<lparr>request_json = Inr (JObj [(''y'', JFloat (Fin (1 / 2)))]),
      screen_size = Inr (1080, 2400), moveTo = (\<lambda>x y d. None), click = None\<rparr>
     = (Jsonify [(''status'', JStr ''success''), (''x'', JInt 0), (''y'', JInt 1200)] 200,
        [MoveTo 0 1200 (1 / 10), Click])
   \<and> handle_click
     \<lparr>request_json = Inr (JObj []),
      screen_size = Inr (1080, 2400), moveTo = (\<lambda>x y d. None), click = None\<rparr>
     = (Jsonify [(''status'', JStr ''success''), (''x'', JInt 0), (''y'', JInt 0)] 200,
        [MoveTo 0 0 (1 / 10), Click])"
proof -
  let ?e1 = "\<lparr>request_json = Inr (JObj [(''y'', JFloat (Fin (1 / 2)))]),
      screen_size = Inr (1080, 2400), moveTo = (\<lambda>x y d. None), click = None\<rparr>"
  let ?e2 = "\<lparr>request_json = Inr (JObj []),
      screen_size = Inr (1080, 2400), moveTo = (\<lambda>x y d. None), click = None\<rparr>"
  have y: "int_times (JFloat (Fin (1 / 2))) 2400 = Inr 1200" by code_simp
  have 1: "handle_click ?e1
     = (Jsonify [(''status'', JStr ''success''), (''x'', JInt 0), (''y'', JInt 1200)] 200,
        [MoveTo 0 1200 (1 / 10), Click])"
    by (rule click_missing_coordinate [where env = ?e1 and kvs = "[(''y'', JFloat (Fin (1 / 2)))]"
          and w = 1080 and h = 2400 and cy = 1200, THEN conjunct1, THEN mp])
       (simp_all add: y del: int_times.simps)
  have 2: "handle_click ?e2
     = (Jsonify [(''status'', JStr ''success''), (''x'', JInt 0), (''y'', JInt 0)] 200,
        [MoveTo 0 0 (1 / 10), Click])"
    by (rule click_missing_coordinate [where env = ?e2 and kvs = "[]"
          and w = 1080 and h = 2400 and cx = 0, THEN conjunct2, THEN mp])
       simp_all
  from 1 2 show ?thesis by (rule conjI)
qed

end
